theory Spec2Isabelle
  imports Main "HOL-Library.Word"
begin

section \<open>Values of the helper\<close>

text \<open>
  A JavaScript string is a sequence of UTF-16 code units: \<open>s.length\<close> counts them and
  \<open>s[0]\<close> reads the first one. \<open>js\<close> embeds an ASCII literal of the source.
\<close>

type_synonym jsstring = "16 word list"

definition js :: "string \<Rightarrow> jsstring" where
  "js s = map of_char s"

text \<open>
  The value of a header or of the port: a string, a number (the \<open>Content-Length\<close>
  that \<open>request\<close> computes is \<open>data.length\<close>), or \<open>undefined\<close> (what
  \<open>data.length\<close> is when \<open>data\<close> is a number or a boolean).
\<close>

datatype prim = UndefV | NumV nat | StrV jsstring

type_synonym header_map = "jsstring \<rightharpoonup> prim"

type_synonym addr = nat

text \<open>
  The \<open>requestOptions\<close> object, with the fields the source reads and their documented
  types. A field that is \<open>None\<close> is not a property of the object and reads as
  \<open>undefined\<close>. \<open>headers\<close> holds a reference to a header object, and
  \<open>request_method\<close> is the property \<open>method\<close>.
\<close>

record options =
  protocol :: "jsstring option"
  hostname :: "jsstring option"
  port :: "prim option"
  path :: "jsstring option"
  request_method :: "jsstring option"
  headers :: "addr option"

definition no_options :: options where
  "no_options = \<lparr>protocol = None, hostname = None, port = None, path = None,
     request_method = None, headers = None\<rparr>"

section \<open>The store of objects\<close>

text \<open>
  Header objects and option objects live in a store and are named by their address (the
  index in the list), so that two references to one object can be told from two equal
  objects. An object literal allocates at the next free address; \<open>Object.assign\<close>
  writes into its target in place and only reads its source.
\<close>

record store =
  header_objects :: "header_map list"
  option_objects :: "options list"

definition new_header_object :: "header_map \<Rightarrow> store \<Rightarrow> addr \<times> store" where
  "new_header_object m s =
     (length (header_objects s), s\<lparr>header_objects := header_objects s @ [m]\<rparr>)"

definition new_option_object :: "options \<Rightarrow> store \<Rightarrow> addr \<times> store" where
  "new_option_object opts s =
     (length (option_objects s), s\<lparr>option_objects := option_objects s @ [opts]\<rparr>)"

text \<open>\<open>Object.assign(target, source)\<close> on header objects; an undefined source is skipped.\<close>

definition assign_headers :: "addr \<Rightarrow> addr option \<Rightarrow> store \<Rightarrow> store" where
  "assign_headers target source s =
     (case source of
        None \<Rightarrow> s
      | Some a \<Rightarrow>
          s\<lparr>header_objects :=
              (header_objects s)[target := (header_objects s ! target) ++ (header_objects s ! a)]\<rparr>)"

text \<open>
  \<open>Object.assign\<close> on option objects: every property of the source replaces the
  target's; the \<open>headers\<close> reference is copied as a reference.
\<close>

definition overlay :: "options \<Rightarrow> options \<Rightarrow> options" where
  "overlay target source =
     \<lparr>protocol = (case protocol source of None \<Rightarrow> protocol target | Some x \<Rightarrow> Some x),
      hostname = (case hostname source of None \<Rightarrow> hostname target | Some x \<Rightarrow> Some x),
      port = (case port source of None \<Rightarrow> port target | Some x \<Rightarrow> Some x),
      path = (case path source of None \<Rightarrow> path target | Some x \<Rightarrow> Some x),
      request_method =
        (case request_method source of None \<Rightarrow> request_method target | Some x \<Rightarrow> Some x),
      headers = (case headers source of None \<Rightarrow> headers target | Some x \<Rightarrow> Some x)\<rparr>"

definition assign_options :: "addr \<Rightarrow> addr option \<Rightarrow> store \<Rightarrow> store" where
  "assign_options target source s =
     (case source of
        None \<Rightarrow> s
      | Some a \<Rightarrow>
          s\<lparr>option_objects :=
              (option_objects s)[target := overlay (option_objects s ! target) (option_objects s ! a)]\<rparr>)"

section \<open>The class APIHelper\<close>

record APIHelper =
  this_headers :: addr
  this_requestOptions :: addr


definition deleteHeader :: "APIHelper \<Rightarrow> jsstring \<Rightarrow> store \<Rightarrow> store" where
  "deleteHeader this key s =
     s\<lparr>header_objects :=
         (header_objects s)[this_headers this :=
            (header_objects s ! this_headers this)(key := None)]\<rparr>"

text \<open>\<open>setHeader(key, value)\<close>: a missing argument is \<open>UndefV\<close>.\<close>

definition setHeader :: "APIHelper \<Rightarrow> jsstring \<Rightarrow> prim \<Rightarrow> store \<Rightarrow> store" where
  "setHeader this key val s =
     (if val = StrV [] \<or> val = UndefV then deleteHeader this key s
      else s\<lparr>header_objects :=
               (header_objects s)[this_headers this :=
                  (header_objects s ! this_headers this)(key \<mapsto> val)]\<rparr>)"

section \<open>request\<close>

text \<open>
  The body argument is a string, a structured value (\<open>typeof data === 'object'\<close>), or a
  number or boolean, of a type \<open>'p\<close> that the helper never looks into. The default
  \<open>data = ''\<close> applies when the argument is \<open>None\<close>.
\<close>

datatype ('v, 'p) data = Text jsstring | Structured 'v | Scalar 'p

text \<open>
  After lines 51 to 53 \<open>data\<close> is a string, or the number or boolean it was.
\<close>

datatype 'p body = StringBody jsstring | ScalarBody 'p

datatype error = TypeError | OtherError jsstring

text \<open>
  \<open>JSON.stringify\<close> belongs to the platform and may throw (a circular object, a BigInt,
  a throwing \<open>toJSON\<close>): the parameter \<open>stringify\<close> returns \<open>Inl\<close> the error
  then. Only a structured value is serialized.
\<close>

definition serialize ::
  "('v \<Rightarrow> error + jsstring) \<Rightarrow> ('v, 'p) data option \<Rightarrow> error + 'p body" where
  "serialize stringify data_arg =
     (case (case data_arg of None \<Rightarrow> Text [] | Some d \<Rightarrow> d) of
        Structured v \<Rightarrow> (case stringify v of Inl e \<Rightarrow> Inl e | Inr t \<Rightarrow> Inr (StringBody t))
      | Text t \<Rightarrow> Inr (StringBody t)
      | Scalar x \<Rightarrow> Inr (ScalarBody x))"

text \<open>\<open>a || b\<close> on optional strings: \<open>undefined\<close> and \<open>''\<close> are falsy.\<close>

definition js_or :: "jsstring option \<Rightarrow> jsstring option \<Rightarrow> jsstring option" where
  "js_or a b = (case a of None \<Rightarrow> b | Some x \<Rightarrow> if x = [] then b else Some x)"

datatype transport = HTTP | HTTPS

text \<open>
  \<open>(requestOptions.protocol || this.requestOptions.protocol) === 'https' ? https : http\<close>
\<close>

definition select_transport :: "options \<Rightarrow> options \<Rightarrow> transport" where
  "select_transport requestOptions defaults =
     (if js_or (protocol requestOptions) (protocol defaults) = Some (js ''https'')
      then HTTPS else HTTP)"

text \<open>
  \<open>(requestOptions.path[0] !== '/' ? '/' : '') + requestOptions.path\<close> on a string:
  \<open>p[0]\<close> is \<open>undefined\<close> when \<open>p\<close> is empty.
\<close>

definition effective_path :: "jsstring \<Rightarrow> jsstring" where
  "effective_path p =
     (if (case p of [] \<Rightarrow> True | c # _ \<Rightarrow> c \<noteq> 0x2F) then js ''/'' else js '''') @ p"

definition methods :: "jsstring list" where
  "methods = [js ''GET'', js ''POST'', js ''PATCH'', js ''PUT'', js ''DELETE'']"

definition effective_method :: "jsstring option \<Rightarrow> jsstring" where
  "effective_method m =
     (case m of
        None \<Rightarrow> js ''GET''
      | Some x \<Rightarrow> if x \<in> set methods then x else js ''GET'')"

text \<open>\<open>data.length\<close>: the number of code units of a string, \<open>undefined\<close> otherwise.\<close>

definition data_length :: "'p body \<Rightarrow> prim" where
  "data_length d = (case d of StringBody t \<Rightarrow> NumV (length t) | ScalarBody x \<Rightarrow> UndefV)"

text \<open>
  \<open>requestOptions.method === 'GET' ? {} : { 'Content-Length': data.length }\<close>
\<close>

definition base_headers :: "jsstring option \<Rightarrow> 'p body \<Rightarrow> header_map" where
  "base_headers m d =
     (if m = Some (js ''GET'') then Map.empty
      else [js ''Content-Length'' \<mapsto> data_length d])"

text \<open>
  What \<open>request\<close> hands to the transport: the descriptor passed to
  \<open>http.request\<close> or \<open>https.request\<close> and the argument of \<open>request.write\<close>
  (\<open>None\<close> as long as \<open>write\<close> is not called).
\<close>

record 'p call =
  call_transport :: transport
  call_hostname :: "jsstring option"
  call_port :: "prim option"
  call_path :: jsstring
  call_method :: jsstring
  call_headers :: header_map
  call_body :: "'p body option"

text \<open>
  The platform is a parameter of the helper: \<open>JSON.stringify\<close>, and whether the
  transport's \<open>request\<close> throws on a descriptor and its \<open>write\<close> on a body
  (\<open>Some\<close> the error). \<open>on\<close> and \<open>end\<close> do not throw.
\<close>

record ('v, 'p) platform =
  stringify :: "'v \<Rightarrow> error + jsstring"
  transport_request :: "'p call \<Rightarrow> error option"
  transport_write :: "'p call \<Rightarrow> error option"

text \<open>
  The executor of the promise either reaches its \<open>catch\<close> block, which rejects, or
  gets through \<open>request.end()\<close>. \<open>Caught\<close> keeps what had been handed to the
  transport when the error arose, \<open>None\<close> if the transport had not been called.
\<close>

datatype 'p executor = Caught error "'p call option" | Dispatched "'p call"

text \<open>
  A call of \<open>request\<close> throws to its caller, when \<open>JSON.stringify\<close> throws at line
  52, before the promise is made and outside the \<open>try\<close>; or it returns the promise.
\<close>

datatype 'p outcome = Thrown error | Returned "'p executor"

text \<open>
  Lines 57 to 81 once the descriptor \<open>c\<close> is built: the transport's \<open>request\<close>,
  then \<open>write\<close> unless \<open>requestOptions.method\<close> is \<open>'GET'\<close>, then \<open>end\<close>, all
  inside the \<open>try\<close>.
\<close>

definition send ::
  "('v, 'p) platform \<Rightarrow> 'p call \<Rightarrow> jsstring option \<Rightarrow> 'p body \<Rightarrow> 'p executor" where
  "send pf c m d =
     (case transport_request pf c of
        Some e \<Rightarrow> Caught e (Some c)
      | None \<Rightarrow>
          if m \<noteq> Some (js ''GET'') then
            (case transport_write pf (c\<lparr>call_body := Some d\<rparr>) of
               Some e \<Rightarrow> Caught e (Some (c\<lparr>call_body := Some d\<rparr>))
             | None \<Rightarrow> Dispatched (c\<lparr>call_body := Some d\<rparr>))
          else Dispatched c)"

text \<open>
  The descriptor, the object literal of lines 57 to 63, for a path \<open>p\<close> that is a
  string and the merged headers \<open>h\<close>.
\<close>

definition descriptor :: "options \<Rightarrow> options \<Rightarrow> jsstring \<Rightarrow> header_map \<Rightarrow> 'p call" where
  "descriptor requestOptions defaults p h =
     \<lparr>call_transport = select_transport requestOptions defaults,
      call_hostname = js_or (hostname requestOptions) (hostname defaults),
      call_port = port requestOptions,
      call_path = effective_path p,
      call_method = effective_method (request_method requestOptions),
      call_headers = h,
      call_body = None\<rparr>"

text \<open>
  Reading \<open>requestOptions.path[0]\<close> throws a TypeError when \<open>path\<close> is
  \<open>undefined\<close>; the properties of the descriptor are evaluated in order, so the header
  object is not built then.
\<close>

definition request ::
  "('v, 'p) platform \<Rightarrow> APIHelper \<Rightarrow> addr \<Rightarrow> ('v, 'p) data option \<Rightarrow> store
     \<Rightarrow> 'p outcome \<times> store" where
  "request pf this ro data_arg s =
     (case serialize (stringify pf) data_arg of
        Inl e \<Rightarrow> (Thrown e, s)
      | Inr d \<Rightarrow>
          let requestOptions = option_objects s ! ro;
              defaults = option_objects s ! this_requestOptions this
          in case path requestOptions of
               None \<Rightarrow> (Returned (Caught TypeError None), s)
             | Some p \<Rightarrow>
                 let (h, s1) =
                       new_header_object (base_headers (request_method requestOptions) d) s;
                     s2 = assign_headers h (Some (this_headers this)) s1;
                     s3 = assign_headers h (headers requestOptions) s2
                 in (Returned
                       (send pf (descriptor requestOptions defaults p (header_objects s3 ! h))
                          (request_method requestOptions) d),
                     s3))"

text \<open>
  The five wrappers: \<open>this.request(Object.assign({ 'method': m }, requestOptions), data)\<close>.
\<close>

definition method_wrapper ::
  "jsstring \<Rightarrow> ('v, 'p) platform \<Rightarrow> APIHelper \<Rightarrow> addr \<Rightarrow> ('v, 'p) data option \<Rightarrow> store
     \<Rightarrow> 'p outcome \<times> store" where
  "method_wrapper m pf this ro data_arg s =
     (let (a, s1) = new_option_object (no_options\<lparr>request_method := Some m\<rparr>) s;
          s2 = assign_options a (Some ro) s1
      in request pf this a
           (Some (case data_arg of None \<Rightarrow> Text [] | Some d \<Rightarrow> d)) s2)"

definition GET ::
  "('v, 'p) platform \<Rightarrow> APIHelper \<Rightarrow> addr \<Rightarrow> ('v, 'p) data option \<Rightarrow> store
     \<Rightarrow> 'p outcome \<times> store" where
  "GET = method_wrapper (js ''GET'')"

definition POST ::
  "('v, 'p) platform \<Rightarrow> APIHelper \<Rightarrow> addr \<Rightarrow> ('v, 'p) data option \<Rightarrow> store
     \<Rightarrow> 'p outcome \<times> store" where
  "POST = method_wrapper (js ''POST'')"

definition PATCH ::
  "('v, 'p) platform \<Rightarrow> APIHelper \<Rightarrow> addr \<Rightarrow> ('v, 'p) data option \<Rightarrow> store
     \<Rightarrow> 'p outcome \<times> store" where
  "PATCH = method_wrapper (js ''PATCH'')"

definition PUT ::
  "('v, 'p) platform \<Rightarrow> APIHelper \<Rightarrow> addr \<Rightarrow> ('v, 'p) data option \<Rightarrow> store
     \<Rightarrow> 'p outcome \<times> store" where
  "PUT = method_wrapper (js ''PUT'')"

definition DELETE ::
  "('v, 'p) platform \<Rightarrow> APIHelper \<Rightarrow> addr \<Rightarrow> ('v, 'p) data option \<Rightarrow> store
     \<Rightarrow> 'p outcome \<times> store" where
  "DELETE = method_wrapper (js ''DELETE'')"

section \<open>The response\<close>

text \<open>
  The promise settles once. The events of a dispatched call are the \<open>error\<close> of the
  request, and the \<open>data\<close>, \<open>error\<close> and \<open>end\<close> of the response; a chunk is taken
  as the string that \<open>update += d\<close> appends. \<open>JSON.parse\<close> is the parameter
  \<open>parse\<close>, \<open>None\<close> when it throws. Nothing follows \<open>end\<close> on the stream, and the
  promise is settled by then, so the run stops there.
\<close>

datatype 'v resolution = Parsed 'v | Raw jsstring

datatype 'v promise = Pending | Resolved "'v resolution" | Rejected error

datatype event = RequestError error | Data jsstring | ResponseError error | End

definition reject :: "error \<Rightarrow> 'v promise \<Rightarrow> 'v promise" where
  "reject e p = (case p of Pending \<Rightarrow> Rejected e | _ \<Rightarrow> p)"

definition resolve :: "'v resolution \<Rightarrow> 'v promise \<Rightarrow> 'v promise" where
  "resolve r p = (case p of Pending \<Rightarrow> Resolved r | _ \<Rightarrow> p)"

definition on_end :: "(jsstring \<Rightarrow> 'v option) \<Rightarrow> jsstring \<Rightarrow> 'v resolution" where
  "on_end parse update = (case parse update of Some v \<Rightarrow> Parsed v | None \<Rightarrow> Raw update)"

fun handle :: "(jsstring \<Rightarrow> 'v option) \<Rightarrow> event list \<Rightarrow> jsstring \<Rightarrow> 'v promise \<Rightarrow> 'v promise" where
  "handle parse [] update p = p"
| "handle parse (RequestError e # es) update p = handle parse es update (reject e p)"
| "handle parse (Data d # es) update p = handle parse es (update @ d) p"
| "handle parse (ResponseError e # es) update p = handle parse es update (reject e p)"
| "handle parse (End # es) update p = resolve (on_end parse update) p"

text \<open>The promise that \<open>request\<close> returns, after the executor and the events.\<close>

definition promise_of ::
  "(jsstring \<Rightarrow> 'v option) \<Rightarrow> 'p executor \<Rightarrow> event list \<Rightarrow> 'v promise" where
  "promise_of parse out es =
     (case out of
        Caught e c \<Rightarrow> reject e Pending
      | Dispatched c \<Rightarrow> handle parse es [] Pending)"

section \<open>The platform: JSON.stringify and the bytes of a string\<close>

text \<open>
  Used where a claim is evaluated on a concrete body. \<open>JSON_stringify\<close> follows
  ECMA-262 (SerializeJSONProperty, QuoteJSONString) on null, booleans, strings, arrays
  and objects, the properties in enumeration order; numbers are left out.
\<close>

datatype json = JNull | JBool bool | JStr jsstring | JArr "json list"
  | JObj "(jsstring \<times> json) list"

definition hex_digit :: "16 word \<Rightarrow> 16 word" where
  "hex_digit n = (if n < 10 then 0x30 + n else 0x57 + n)"

definition unicode_escape :: "16 word \<Rightarrow> jsstring" where
  "unicode_escape u =
     [0x5C, 0x75, hex_digit (drop_bit 12 u), hex_digit (take_bit 4 (drop_bit 8 u)),
        hex_digit (take_bit 4 (drop_bit 4 u)), hex_digit (take_bit 4 u)]"

definition leading_surrogate :: "16 word \<Rightarrow> bool" where
  "leading_surrogate u \<longleftrightarrow> 0xD800 \<le> u \<and> u \<le> 0xDBFF"

definition trailing_surrogate :: "16 word \<Rightarrow> bool" where
  "trailing_surrogate u \<longleftrightarrow> 0xDC00 \<le> u \<and> u \<le> 0xDFFF"

definition quote_unit :: "16 word \<Rightarrow> jsstring" where
  "quote_unit u =
     (if u = 0x08 then [0x5C, 0x62]
      else if u = 0x09 then [0x5C, 0x74]
      else if u = 0x0A then [0x5C, 0x6E]
      else if u = 0x0C then [0x5C, 0x66]
      else if u = 0x0D then [0x5C, 0x72]
      else if u = 0x22 then [0x5C, 0x22]
      else if u = 0x5C then [0x5C, 0x5C]
      else if u < 0x20 \<or> leading_surrogate u \<or> trailing_surrogate u then unicode_escape u
      else [u])"

fun quote_units :: "jsstring \<Rightarrow> jsstring" where
  "quote_units [] = []"
| "quote_units [u] = quote_unit u"
| "quote_units (u # v # us) =
     (if leading_surrogate u \<and> trailing_surrogate v then u # v # quote_units us
      else quote_unit u @ quote_units (v # us))"

definition QuoteJSONString :: "jsstring \<Rightarrow> jsstring" where
  "QuoteJSONString s = [0x22] @ quote_units s @ [0x22]"

fun join :: "jsstring \<Rightarrow> jsstring list \<Rightarrow> jsstring" where
  "join sep [] = []"
| "join sep [x] = x"
| "join sep (x # y # ys) = x @ sep @ join sep (y # ys)"

fun JSON_stringify :: "json \<Rightarrow> jsstring" where
  "JSON_stringify JNull = js ''null''"
| "JSON_stringify (JBool b) = (if b then js ''true'' else js ''false'')"
| "JSON_stringify (JStr s) = QuoteJSONString s"
| "JSON_stringify (JArr xs) = js ''['' @ join (js '','') (map JSON_stringify xs) @ js '']''"
| "JSON_stringify (JObj kvs) =
     js ''{'' @
     join (js '','') (map (\<lambda>(k, v). QuoteJSONString k @ js '':'' @ JSON_stringify v) kvs) @
     js ''}''"

text \<open>
  The number of bytes of a string as the transport writes it (UTF-8): a surrogate pair
  takes four bytes, a lone surrogate is written as U+FFFD.
\<close>

fun utf8_length :: "jsstring \<Rightarrow> nat" where
  "utf8_length [] = 0"
| "utf8_length [u] = (if u < 0x80 then 1 else if u < 0x800 then 2 else 3)"
| "utf8_length (u # v # us) =
     (if leading_surrogate u \<and> trailing_surrogate v then 4 + utf8_length us
      else (if u < 0x80 then 1 else if u < 0x800 then 2 else 3) + utf8_length (v # us))"

text \<open>
  A structured body is a value that \<open>JSON_stringify\<close> serializes, or an object that
  contains itself, on which \<open>JSON.stringify\<close> throws a TypeError.
\<close>

datatype structured = Plain json | Circular

definition node_stringify :: "structured \<Rightarrow> error + jsstring" where
  "node_stringify v = (case v of Plain j \<Rightarrow> Inr (JSON_stringify j) | Circular \<Rightarrow> Inl TypeError)"

section \<open>Reading the results\<close>

text \<open>
  The call that got through \<open>request.end()\<close>; what the executor of the returned
  promise did, if a promise is returned; the call handed to the transport, whether
  or not the transport then threw; the header object behind an optional reference; and
  the header objects that the state of an instance refers to, its own and the one behind
  the \<open>headers\<close> property of its stored options.
\<close>

fun dispatched :: "'p outcome \<Rightarrow> 'p call option" where
  "dispatched (Returned (Dispatched c)) = Some c"
| "dispatched (Returned (Caught e c)) = None"
| "dispatched (Thrown e) = None"

fun returned :: "'p outcome \<Rightarrow> 'p executor option" where
  "returned (Returned x) = Some x"
| "returned (Thrown e) = None"

fun handed :: "'p outcome \<Rightarrow> 'p call option" where
  "handed (Returned (Dispatched c)) = Some c"
| "handed (Returned (Caught e c)) = c"
| "handed (Thrown e) = None"

definition read_headers :: "store \<Rightarrow> addr option \<Rightarrow> header_map" where
  "read_headers s r = (case r of None \<Rightarrow> Map.empty | Some a \<Rightarrow> header_objects s ! a)"


section \<open>A store and a platform for concrete runs\<close>

text \<open>
  Header object 0 belongs to the instance, header object 1 to a caller. Option object 0
  holds the instance's defaults; the others are \<open>requestOptions\<close> of callers:
  \<open>{ path: 'users' }\<close>, \<open>{ method: 'POST', path: '/items' }\<close>,
  \<open>{ method: 'POST', path: '/items', headers: <object 1> }\<close>,
  \<open>{ protocol: '', method: 'GET', path: '/x' }\<close>, \<open>{ method: 'GET' }\<close> and
  \<open>{ protocol: 'ftp', path: '/x' }\<close>.
\<close>

definition demo_this :: APIHelper where
  "demo_this = \<lparr>this_headers = 0, this_requestOptions = 0\<rparr>"

definition demo_store :: store where
  "demo_store =
     \<lparr>header_objects =
        [[js ''Accept'' \<mapsto> StrV (js ''text/plain'')],
         [js ''Content-Length'' \<mapsto> StrV (js ''9'')]],
      option_objects =
        [no_options\<lparr>protocol := Some (js ''https''), hostname := Some (js ''example.org'')\<rparr>,
         no_options\<lparr>path := Some (js ''users'')\<rparr>,
         no_options\<lparr>request_method := Some (js ''POST''), path := Some (js ''/items'')\<rparr>,
         no_options\<lparr>request_method := Some (js ''POST''), path := Some (js ''/items''),
           headers := Some 1\<rparr>,
         no_options\<lparr>protocol := Some [], request_method := Some (js ''GET''),
           path := Some (js ''/x'')\<rparr>,
         no_options\<lparr>request_method := Some (js ''GET'')\<rparr>,
         no_options\<lparr>protocol := Some (js ''ftp''), path := Some (js ''/x'')\<rparr>]\<rparr>"

text \<open>
  The platform of the runs: \<open>JSON.stringify\<close> as above, and a transport that throws a
  TypeError on a \<open>Content-Length\<close> that is \<open>undefined\<close> and on a body that is not a
  string, as Node's does, and accepts the descriptors and bodies of the runs below. In
  the runs a body that is not a string or structured is a boolean or an integer.
\<close>

datatype scalar = Boolean bool | Number int

definition demo_platform :: "(structured, scalar) platform" where
  "demo_platform =
     \<lparr>stringify = node_stringify,
      transport_request =
        (\<lambda>c. if call_headers c (js ''Content-Length'') = Some UndefV then Some TypeError
             else None),
      transport_write =
        (\<lambda>c. case call_body c of Some (ScalarBody x) \<Rightarrow> Some TypeError | _ \<Rightarrow> None)\<rparr>"

text \<open>The structured body \<open>{ a: '\u00e9' }\<close>: one property, the string of the one code unit U+00E9.\<close>

definition demo_body :: json where
  "demo_body = JObj [(js ''a'', JStr [0xE9])]"

text \<open>The store after \<open>setHeader('Content-Length', '7')\<close> on the instance.\<close>

definition demo_store_overridden :: store where
  "demo_store_overridden =
     setHeader demo_this (js ''Content-Length'') (StrV (js ''7'')) demo_store"

section \<open>Header mutation\<close>

lemma deleteHeader_absent:
  assumes "(header_objects s ! this_headers this) k = None"
  shows "deleteHeader this k s = s"
proof -
  have "(header_objects s ! this_headers this)(k := None) = header_objects s ! this_headers this"
    using assms by (simp add: fun_upd_idem)
  then show ?thesis by (simp add: deleteHeader_def)
qed

text \<open>
  C7. \<open>setHeader(k, '')\<close> and \<open>setHeader(k, undefined)\<close> leave the store exactly as
  \<open>deleteHeader(k)\<close> does: the instance's header object loses the entry for \<open>k\<close>,
  nothing else changes, and when \<open>k\<close> has no entry the store is unchanged.
\<close>

theorem setHeader_empty_or_undefined_is_deleteHeader:
  "setHeader this k (StrV []) s = deleteHeader this k s
   \<and> setHeader this k UndefV s = deleteHeader this k s
   \<and> option_objects (deleteHeader this k s) = option_objects s
   \<and> (this_headers this < length (header_objects s) \<longrightarrow>
        header_objects (deleteHeader this k s) ! this_headers this =
          (header_objects s ! this_headers this)(k := None))
   \<and> ((header_objects s ! this_headers this) k = None \<longrightarrow> deleteHeader this k s = s)"
  using deleteHeader_absent [of s this k] by (simp add: setHeader_def deleteHeader_def)

theorem setHeader_empty_or_undefined_is_deleteHeader_witness:
  "this_headers demo_this < length (header_objects demo_store)
   \<and> (header_objects demo_store ! this_headers demo_this) (js ''Accept'') \<noteq> None
   \<and> (header_objects (setHeader demo_this (js ''Accept'') UndefV demo_store)
        ! this_headers demo_this) (js ''Accept'') = None
   \<and> (header_objects (setHeader demo_this (js ''Accept'') (StrV []) demo_store)
        ! this_headers demo_this) (js ''Accept'') = None
   \<and> (header_objects demo_store ! this_headers demo_this) (js ''Host'') = None
   \<and> setHeader demo_this (js ''Host'') UndefV demo_store = demo_store"
  using setHeader_empty_or_undefined_is_deleteHeader [of demo_this "js ''Accept''" demo_store]
    setHeader_empty_or_undefined_is_deleteHeader [of demo_this "js ''Host''" demo_store]
  by (simp add: demo_this_def demo_store_def js_def)

section \<open>What request hands to the transport\<close>

lemma handed_send:
  "\<exists>c'. handed (Returned (send pf c m d)) = Some c'
     \<and> call_transport c' = call_transport c
     \<and> call_hostname c' = call_hostname c
     \<and> call_port c' = call_port c
     \<and> call_path c' = call_path c
     \<and> call_method c' = call_method c
     \<and> call_headers c' = call_headers c
     \<and> (dispatched (Returned (send pf c m d)) = None
          \<or> dispatched (Returned (send pf c m d)) = Some c')"
  by (simp add: send_def split: option.splits)

lemma dispatched_send:
  assumes "transport_request pf c = None"
    and "transport_write pf (c\<lparr>call_body := Some d\<rparr>) = None"
  shows "dispatched (Returned (send pf c m d)) =
     Some (c\<lparr>call_body := if m \<noteq> Some (js ''GET'') then Some d else call_body c\<rparr>)"
  using assms by (simp add: send_def)

lemma request_throws:
  assumes "serialize (stringify pf) d = Inl e"
  shows "request pf this ro d s = (Thrown e, s)"
  using assms by (simp add: request_def)

lemma request_path_absent:
  assumes "path (option_objects s ! ro) = None"
    and "serialize (stringify pf) d = Inr b"
  shows "request pf this ro d s = (Returned (Caught TypeError None), s)"
  using assms by (simp add: request_def Let_def)

lemma request_send:
  assumes "path (option_objects s ! ro) = Some p"
    and "serialize (stringify pf) d = Inr b"
  shows "\<exists>h. request pf this ro d s =
     (Returned
        (send pf
           (descriptor (option_objects s ! ro) (option_objects s ! this_requestOptions this) p h)
           (request_method (option_objects s ! ro)) b),
      s\<lparr>header_objects := header_objects s @ [h]\<rparr>)"
  using assms
  by (cases "headers (option_objects s ! ro)")
     (simp_all add: request_def Let_def new_header_object_def assign_headers_def, blast+)

lemma request_path_present:
  assumes "path (option_objects s ! ro) = Some p"
    and "serialize (stringify pf) d = Inr b"
  shows "\<exists>c. handed (fst (request pf this ro d s)) = Some c
     \<and> snd (request pf this ro d s) =
         s\<lparr>header_objects := header_objects s @ [call_headers c]\<rparr>
     \<and> call_transport c =
         select_transport (option_objects s ! ro) (option_objects s ! this_requestOptions this)
     \<and> call_hostname c =
         js_or (hostname (option_objects s ! ro))
           (hostname (option_objects s ! this_requestOptions this))
     \<and> call_port c = port (option_objects s ! ro)
     \<and> call_path c = effective_path p
     \<and> call_method c = effective_method (request_method (option_objects s ! ro))
     \<and> (dispatched (fst (request pf this ro d s)) = None
          \<or> dispatched (fst (request pf this ro d s)) = Some c)"
proof -
  obtain h where r: "request pf this ro d s =
     (Returned
        (send pf
           (descriptor (option_objects s ! ro) (option_objects s ! this_requestOptions this) p h)
           (request_method (option_objects s ! ro)) b),
      s\<lparr>header_objects := header_objects s @ [h]\<rparr>)"
    using request_send [OF assms, of this] by blast
  show ?thesis
    using handed_send [of pf
        "descriptor (option_objects s ! ro) (option_objects s ! this_requestOptions this) p h"
        "request_method (option_objects s ! ro)" b]
    by (auto simp add: r descriptor_def)
qed

lemma request_headers:
  assumes "path (option_objects s ! ro) = Some p"
    and "serialize (stringify pf) d = Inr b"
    and "this_headers this < length (header_objects s)"
    and "\<And>a. headers (option_objects s ! ro) = Some a \<Longrightarrow> a < length (header_objects s)"
    and "handed (fst (request pf this ro d s)) = Some c"
  shows "call_headers c =
      base_headers (request_method (option_objects s ! ro)) b
        ++ (header_objects s ! this_headers this)
        ++ read_headers s (headers (option_objects s ! ro))"
proof -
  have r: "fst (request pf this ro d s) =
     Returned
        (send pf
           (descriptor (option_objects s ! ro) (option_objects s ! this_requestOptions this) p
              (base_headers (request_method (option_objects s ! ro)) b
                ++ (header_objects s ! this_headers this)
                ++ read_headers s (headers (option_objects s ! ro))))
           (request_method (option_objects s ! ro)) b)"
    using assms(1-4)
    by (cases "headers (option_objects s ! ro)")
       (simp_all add: request_def Let_def new_header_object_def assign_headers_def
          read_headers_def nth_append)
  show ?thesis
    using assms(5)
      handed_send [of pf
        "descriptor (option_objects s ! ro) (option_objects s ! this_requestOptions this) p
              (base_headers (request_method (option_objects s ! ro)) b
                ++ (header_objects s ! this_headers this)
                ++ read_headers s (headers (option_objects s ! ro)))"
        "request_method (option_objects s ! ro)" b]
    unfolding r by (auto simp add: descriptor_def)
qed

text \<open>
  C1. Each wrapper forces the method to its own name, whatever \<open>method\<close> the caller put
  in \<open>requestOptions\<close>. The code does not: \<open>Object.assign({ 'method': 'GET' },
  requestOptions)\<close> lets the caller's property replace the wrapper's. Evaluated at
  \<open>GET({ method: 'POST', path: '/items' })\<close>, the call goes out as a POST.
\<close>

theorem GET_with_caller_method:
  "map_option call_method
     (dispatched (fst (GET demo_platform demo_this 2 None demo_store))) = Some (js ''POST'')"
  by (simp add: GET_def method_wrapper_def new_option_object_def assign_options_def overlay_def
      request_def Let_def demo_store_def demo_this_def no_options_def serialize_def
      demo_platform_def send_def descriptor_def base_headers_def data_length_def
      new_header_object_def assign_headers_def effective_method_def methods_def js_def
      map_add_def)

text \<open>
  C2. When the effective method is GET, no \<open>Content-Length\<close> is put in the base
  headers and no body is written. The code tests \<open>requestOptions.method\<close> itself and
  not the coerced method: at \<open>request({ path: 'users' }, 'abc')\<close> the method sent is
  GET, the base headers hold \<open>Content-Length: 3\<close>, it reaches the headers sent, and
  \<open>'abc'\<close> is written.
\<close>

theorem request_without_method_sends_body:
  "map_option call_method
     (dispatched (fst (request demo_platform demo_this 1 (Some (Text (js ''abc''))) demo_store)))
     = Some (js ''GET'')
   \<and> base_headers (request_method (option_objects demo_store ! 1)) (StringBody (js ''abc''))
       (js ''Content-Length'') = Some (NumV 3)
   \<and> map_option (\<lambda>c. call_headers c (js ''Content-Length''))
       (dispatched (fst (request demo_platform demo_this 1 (Some (Text (js ''abc''))) demo_store)))
     = Some (Some (NumV 3))
   \<and> map_option call_body
       (dispatched (fst (request demo_platform demo_this 1 (Some (Text (js ''abc''))) demo_store)))
     = Some (Some (StringBody (js ''abc'')))"
  by (simp add: request_def Let_def demo_store_def demo_this_def no_options_def serialize_def
      demo_platform_def send_def descriptor_def base_headers_def data_length_def
      new_header_object_def assign_headers_def effective_method_def
      methods_def js_def map_add_def)

text \<open>
  C3. For a method other than GET and a structured body, the body written is the JSON
  serialization and the base \<open>Content-Length\<close> is its length in bytes. The code takes
  \<open>data.length\<close>, the number of UTF-16 code units: at
  \<open>request({ method: 'POST', path: '/items' }, { a: '\u00e9' })\<close> the body is the
  serialization, of 10 bytes, and \<open>Content-Length\<close> is 9.
\<close>

theorem request_content_length_code_units:
  "map_option call_body
     (dispatched (fst (request demo_platform demo_this 2
        (Some (Structured (Plain demo_body))) demo_store)))
     = Some (Some (StringBody (JSON_stringify demo_body)))
   \<and> JSON_stringify demo_body = [0x7B, 0x22, 0x61, 0x22, 0x3A, 0x22, 0xE9, 0x22, 0x7D]
   \<and> base_headers (request_method (option_objects demo_store ! 2))
       (StringBody (JSON_stringify demo_body)) (js ''Content-Length'') = Some (NumV 9)
   \<and> map_option (\<lambda>c. call_headers c (js ''Content-Length''))
       (dispatched (fst (request demo_platform demo_this 2
          (Some (Structured (Plain demo_body))) demo_store)))
     = Some (Some (NumV 9))
   \<and> utf8_length (JSON_stringify demo_body) = 10"
  by (simp add: request_def Let_def demo_store_def demo_this_def no_options_def serialize_def
      demo_platform_def node_stringify_def send_def descriptor_def base_headers_def
      data_length_def new_header_object_def assign_headers_def effective_method_def
      methods_def js_def map_add_def demo_body_def QuoteJSONString_def quote_unit_def
      leading_surrogate_def trailing_surrogate_def)

text \<open>
  C5. For a key of the base headers that the instance's headers also hold: when
  \<open>requestOptions.headers\<close> holds it too, the headers handed to the transport map it
  to the value of \<open>requestOptions.headers\<close>; when \<open>requestOptions.headers\<close> does
  not, to the instance's value. This is for a request that reaches the transport: the
  path is present and serializing the body does not throw.
\<close>

theorem header_precedence:
  assumes "path (option_objects s ! ro) = Some p"
    and "serialize (stringify f) d = Inr b"
    and "this_headers this < length (header_objects s)"
    and "\<And>a. headers (option_objects s ! ro) = Some a \<Longrightarrow> a < length (header_objects s)"
    and "base_headers (request_method (option_objects s ! ro)) b k = Some vb"
    and "(header_objects s ! this_headers this) k = Some vi"
  shows "\<exists>c. handed (fst (request f this ro d s)) = Some c
     \<and> (\<forall>vr. read_headers s (headers (option_objects s ! ro)) k = Some vr
           \<longrightarrow> call_headers c k = Some vr)
     \<and> (read_headers s (headers (option_objects s ! ro)) k = None
           \<longrightarrow> call_headers c k = Some vi)"
proof -
  obtain c where c: "handed (fst (request f this ro d s)) = Some c"
    using request_path_present [OF assms(1) assms(2), of this] by blast
  from request_headers [OF assms(1) assms(2) assms(3) assms(4) this]
  have h: "call_headers c =
      base_headers (request_method (option_objects s ! ro)) b
        ++ (header_objects s ! this_headers this)
        ++ read_headers s (headers (option_objects s ! ro))" by simp
  show ?thesis using c h assms(6) by (auto simp add: map_add_def split: option.splits)
qed

theorem header_precedence_witness:
  "path (option_objects demo_store_overridden ! 3) = Some (js ''/items'')
   \<and> serialize (stringify demo_platform) (None :: (structured, scalar) data option) = Inr (StringBody [])
   \<and> this_headers demo_this < length (header_objects demo_store_overridden)
   \<and> headers (option_objects demo_store_overridden ! 3) = Some 1
   \<and> 1 < length (header_objects demo_store_overridden)
   \<and> base_headers (request_method (option_objects demo_store_overridden ! 3))
       (StringBody []) (js ''Content-Length'') = Some (NumV 0)
   \<and> (header_objects demo_store_overridden ! this_headers demo_this) (js ''Content-Length'')
       = Some (StrV (js ''7''))
   \<and> read_headers demo_store_overridden (headers (option_objects demo_store_overridden ! 3))
       (js ''Content-Length'') = Some (StrV (js ''9''))
   \<and> map_option (\<lambda>c. call_headers c (js ''Content-Length''))
        (handed (fst (request demo_platform demo_this 3 None demo_store_overridden)))
       = Some (Some (StrV (js ''9'')))
   \<and> path (option_objects demo_store_overridden ! 2) = Some (js ''/items'')
   \<and> headers (option_objects demo_store_overridden ! 2) = None
   \<and> read_headers demo_store_overridden (headers (option_objects demo_store_overridden ! 2))
       (js ''Content-Length'') = None
   \<and> map_option (\<lambda>c. call_headers c (js ''Content-Length''))
        (handed (fst (request demo_platform demo_this 2 None demo_store_overridden)))
       = Some (Some (StrV (js ''7'')))
   \<and> dispatched (fst (request demo_platform demo_this 3 None demo_store_overridden))
       = handed (fst (request demo_platform demo_this 3 None demo_store_overridden))
   \<and> dispatched (fst (request demo_platform demo_this 2 None demo_store_overridden))
       = handed (fst (request demo_platform demo_this 2 None demo_store_overridden))"
proof -
  have d3: "dispatched (fst (request demo_platform demo_this 3 None demo_store_overridden))
       = handed (fst (request demo_platform demo_this 3 None demo_store_overridden))"
    by (simp add: request_def Let_def demo_store_def demo_this_def no_options_def serialize_def
        demo_platform_def send_def descriptor_def base_headers_def data_length_def
        new_header_object_def assign_headers_def setHeader_def demo_store_overridden_def
        js_def map_add_def)
  have d2: "dispatched (fst (request demo_platform demo_this 2 None demo_store_overridden))
       = handed (fst (request demo_platform demo_this 2 None demo_store_overridden))"
    by (simp add: request_def Let_def demo_store_def demo_this_def no_options_def serialize_def
        demo_platform_def send_def descriptor_def base_headers_def data_length_def
        new_header_object_def assign_headers_def setHeader_def demo_store_overridden_def
        js_def map_add_def)

  have s2: "demo_store_overridden = demo_store\<lparr>header_objects :=
        [[js ''Accept'' \<mapsto> StrV (js ''text/plain''), js ''Content-Length'' \<mapsto> StrV (js ''7'')],
         [js ''Content-Length'' \<mapsto> StrV (js ''9'')]]\<rparr>"
    by (simp add: demo_store_overridden_def setHeader_def demo_this_def demo_store_def js_def)
  have o: "option_objects demo_store_overridden = option_objects demo_store"
    by (simp add: s2)
  have z: "serialize (stringify demo_platform) (None :: (structured, scalar) data option) = Inr (StringBody [])"
    by (simp add: serialize_def)
  have p3: "path (option_objects demo_store_overridden ! 3) = Some (js ''/items'')"
    by (simp add: o demo_store_def no_options_def)
  have p2: "path (option_objects demo_store_overridden ! 2) = Some (js ''/items'')"
    by (simp add: o demo_store_def no_options_def)
  have v: "this_headers demo_this < length (header_objects demo_store_overridden)"
    by (simp add: s2 demo_this_def)
  have h3: "headers (option_objects demo_store_overridden ! 3) = Some 1"
    by (simp add: o demo_store_def no_options_def)
  have h2: "headers (option_objects demo_store_overridden ! 2) = None"
    by (simp add: o demo_store_def no_options_def)
  have l: "1 < length (header_objects demo_store_overridden)"
    by (simp add: s2)
  have v3: "\<And>a. headers (option_objects demo_store_overridden ! 3) = Some a
      \<Longrightarrow> a < length (header_objects demo_store_overridden)"
    using h3 l by simp
  have v2: "\<And>a. headers (option_objects demo_store_overridden ! 2) = Some a
      \<Longrightarrow> a < length (header_objects demo_store_overridden)"
    using h2 by simp
  have b3: "base_headers (request_method (option_objects demo_store_overridden ! 3))
      (StringBody []) (js ''Content-Length'') = Some (NumV 0)"
    by (simp add: o demo_store_def no_options_def base_headers_def data_length_def js_def)
  have b2: "base_headers (request_method (option_objects demo_store_overridden ! 2))
      (StringBody []) (js ''Content-Length'') = Some (NumV 0)"
    by (simp add: o demo_store_def no_options_def base_headers_def data_length_def js_def)
  have i: "(header_objects demo_store_overridden ! this_headers demo_this)
      (js ''Content-Length'') = Some (StrV (js ''7''))"
    by (simp add: s2 demo_this_def js_def)
  have r3: "read_headers demo_store_overridden
      (headers (option_objects demo_store_overridden ! 3)) (js ''Content-Length'')
      = Some (StrV (js ''9''))"
    unfolding h3 by (simp add: read_headers_def s2)
  have r2: "read_headers demo_store_overridden
      (headers (option_objects demo_store_overridden ! 2)) (js ''Content-Length'') = None"
    unfolding h2 by (simp add: read_headers_def)
  have t3: "map_option (\<lambda>c. call_headers c (js ''Content-Length''))
        (handed (fst (request demo_platform demo_this 3 None demo_store_overridden)))
       = Some (Some (StrV (js ''9'')))"
    using header_precedence [OF p3 z v v3 b3 i] r3 by auto
  have t2: "map_option (\<lambda>c. call_headers c (js ''Content-Length''))
        (handed (fst (request demo_platform demo_this 2 None demo_store_overridden)))
       = Some (Some (StrV (js ''7'')))"
    using header_precedence [OF p2 z v v2 b2 i] r2 by auto
  show ?thesis
    using p3 z v h3 l b3 i r3 t3 p2 h2 r2 t2 d3 d2 by blast
qed

text \<open>
  C6. A path that does not begin with \<open>/\<close> is handed to the transport with one \<open>/\<close>
  put in front; a path that begins with \<open>/\<close> is handed over as it is. This is for a
  request whose body serializes without throwing.
\<close>

theorem request_path_leading_slash:
  assumes "path (option_objects s ! ro) = Some p"
    and "serialize (stringify f) d = Inr b"
  shows "\<exists>c. handed (fst (request f this ro d s)) = Some c
     \<and> (take 1 p \<noteq> js ''/'' \<longrightarrow> call_path c = js ''/'' @ p)
     \<and> (take 1 p = js ''/'' \<longrightarrow> call_path c = p)"
proof -
  obtain c where c: "handed (fst (request f this ro d s)) = Some c"
    and cp: "call_path c = effective_path p"
    using request_path_present [OF assms, of this] by blast
  have "take 1 p \<noteq> js ''/'' \<Longrightarrow> effective_path p = js ''/'' @ p"
    by (cases p) (simp_all add: effective_path_def js_def)
  moreover have "take 1 p = js ''/'' \<Longrightarrow> effective_path p = p"
    by (cases p) (simp_all add: effective_path_def js_def)
  ultimately show ?thesis using c cp by simp
qed

theorem request_path_leading_slash_witness:
  "path (option_objects demo_store ! 1) = Some (js ''users'')
   \<and> serialize (stringify demo_platform) (None :: (structured, scalar) data option) = Inr (StringBody [])
   \<and> take 1 (js ''users'') \<noteq> js ''/''
   \<and> map_option call_path
       (handed (fst (request demo_platform demo_this 1 None demo_store)))
       = Some (js ''/users'')
   \<and> path (option_objects demo_store ! 2) = Some (js ''/items'')
   \<and> take 1 (js ''/items'') = js ''/''
   \<and> map_option call_path
       (handed (fst (request demo_platform demo_this 2 None demo_store)))
       = Some (js ''/items'')
   \<and> dispatched (fst (request demo_platform demo_this 1 None demo_store))
       = handed (fst (request demo_platform demo_this 1 None demo_store))
   \<and> dispatched (fst (request demo_platform demo_this 2 None demo_store))
       = handed (fst (request demo_platform demo_this 2 None demo_store))"
proof -
  have d1: "dispatched (fst (request demo_platform demo_this 1 None demo_store))
       = handed (fst (request demo_platform demo_this 1 None demo_store))"
    by (simp add: request_def Let_def demo_store_def demo_this_def no_options_def serialize_def
        demo_platform_def send_def descriptor_def base_headers_def data_length_def
        new_header_object_def assign_headers_def setHeader_def demo_store_overridden_def
        js_def map_add_def)
  have d2: "dispatched (fst (request demo_platform demo_this 2 None demo_store))
       = handed (fst (request demo_platform demo_this 2 None demo_store))"
    by (simp add: request_def Let_def demo_store_def demo_this_def no_options_def serialize_def
        demo_platform_def send_def descriptor_def base_headers_def data_length_def
        new_header_object_def assign_headers_def setHeader_def demo_store_overridden_def
        js_def map_add_def)

  have p1: "path (option_objects demo_store ! 1) = Some (js ''users'')"
    by (simp add: demo_store_def no_options_def)
  have p2: "path (option_objects demo_store ! 2) = Some (js ''/items'')"
    by (simp add: demo_store_def no_options_def)
  have z: "serialize (stringify demo_platform) (None :: (structured, scalar) data option) = Inr (StringBody [])"
    by (simp add: serialize_def)
  have n1: "take 1 (js ''users'') \<noteq> js ''/''"
    by (simp add: js_def)
  have n2: "take 1 (js ''/items'') = js ''/''"
    by (simp add: js_def)
  have t1: "map_option call_path
       (handed (fst (request demo_platform demo_this 1 None demo_store)))
       = Some (js ''/'' @ js ''users'')"
    using request_path_leading_slash [OF p1 z, of demo_this] n1 by auto
  have t2: "map_option call_path
       (handed (fst (request demo_platform demo_this 2 None demo_store)))
       = Some (js ''/items'')"
    using request_path_leading_slash [OF p2 z, of demo_this] n2 by auto
  have "js ''/'' @ js ''users'' = js ''/users''"
    by (simp add: js_def)
  then have t1': "map_option call_path
       (handed (fst (request demo_platform demo_this 1 None demo_store)))
       = Some (js ''/users'')"
    using t1 by simp
  show ?thesis
    using p1 z n1 t1' p2 n2 t2 d1 d2 by blast
qed




text \<open>
  C10. As stated, for every call with \<open>path\<close> absent, the claim fails:
  \<open>JSON.stringify(data)\<close> runs at line 52, before the promise is made and outside the
  \<open>try\<close>. At \<open>request({ method: 'GET' }, o)\<close> with \<open>o\<close> an object that contains
  itself, the call throws the TypeError to its caller and returns no promise.
\<close>

theorem request_without_path_throws_counterexample:
  "path (option_objects demo_store ! 5) = None
   \<and> fst (request demo_platform demo_this 5 (Some (Structured Circular)) demo_store)
       = Thrown TypeError
   \<and> fst (request demo_platform demo_this 5 (Some (Structured Circular)) demo_store)
       \<noteq> Returned (Caught TypeError None)"
  by (simp add: request_def serialize_def demo_platform_def node_stringify_def
      demo_store_def no_options_def)

text \<open>
  C10, amended. When \<open>requestOptions.path\<close> is absent and serializing the body does not
  throw, the call returns a promise whose executor ends in its \<open>catch\<close> block: nothing
  is handed to the transport, the store is untouched, and the promise is rejected with
  the TypeError, whatever events are imagined afterwards. When serializing throws, the
  call throws that error to its caller.
\<close>

theorem request_without_path_rejects:
  assumes "path (option_objects s ! ro) = None"
  shows "(\<forall>b. serialize (stringify f) d = Inr b \<longrightarrow>
            request f this ro d s = (Returned (Caught TypeError None), s)
          \<and> handed (fst (request f this ro d s)) = None
          \<and> map_option (\<lambda>x. promise_of parse x es) (returned (fst (request f this ro d s)))
              = Some (Rejected TypeError))
     \<and> (\<forall>e. serialize (stringify f) d = Inl e \<longrightarrow> request f this ro d s = (Thrown e, s))"
  using request_path_absent [OF assms, of f d _ this] request_throws [of f d _ this ro s]
  by (simp add: promise_of_def reject_def)

theorem request_without_path_rejects_witness:
  "path (option_objects demo_store ! 5) = None
   \<and> serialize (stringify demo_platform)
       (Some (Text (js ''abc'')) :: (structured, scalar) data option) = Inr (StringBody (js ''abc''))
   \<and> request demo_platform demo_this 5 (Some (Text (js ''abc''))) demo_store
       = (Returned (Caught TypeError None), demo_store)
   \<and> map_option (\<lambda>x. promise_of (\<lambda>u. None :: json option) x [Data (js ''ok''), End])
        (returned (fst (request demo_platform demo_this 5 (Some (Text (js ''abc''))) demo_store)))
       = Some (Rejected TypeError)
   \<and> serialize (stringify demo_platform)
       (Some (Structured Circular) :: (structured, scalar) data option) = Inl TypeError
   \<and> request demo_platform demo_this 5 (Some (Structured Circular)) demo_store
       = (Thrown TypeError, demo_store)"
proof -
  have p: "path (option_objects demo_store ! 5) = None"
    by (simp add: demo_store_def no_options_def)
  have z: "serialize (stringify demo_platform)
       (Some (Text (js ''abc'')) :: (structured, scalar) data option) = Inr (StringBody (js ''abc''))"
    by (simp add: serialize_def)
  have y: "serialize (stringify demo_platform)
       (Some (Structured Circular) :: (structured, scalar) data option) = Inl TypeError"
    by (simp add: serialize_def demo_platform_def node_stringify_def)
  note t1 = request_without_path_rejects [OF p, of demo_platform "Some (Text (js ''abc''))"
      demo_this "\<lambda>u. None :: json option" "[Data (js ''ok''), End]"]
  note t2 = request_without_path_rejects [OF p, of demo_platform "Some (Structured Circular)"
      demo_this "\<lambda>u. None :: json option" "[Data (js ''ok''), End]"]
  have a: "request demo_platform demo_this 5 (Some (Text (js ''abc''))) demo_store
       = (Returned (Caught TypeError None), demo_store)"
    using t1 z by simp
  have b: "map_option (\<lambda>x. promise_of (\<lambda>u. None :: json option) x [Data (js ''ok''), End])
        (returned (fst (request demo_platform demo_this 5 (Some (Text (js ''abc''))) demo_store)))
       = Some (Rejected TypeError)"
    using t1 z by blast
  have c: "request demo_platform demo_this 5 (Some (Structured Circular)) demo_store
       = (Thrown TypeError, demo_store)"
    using t2 y by simp
  show ?thesis
    using p z a b y c by (intro conjI)
qed

section \<open>Settling the promise\<close>

lemma handle_data:
  "handle parse (map Data ds @ es) update p = handle parse es (update @ concat ds) p"
  by (induction ds arbitrary: update) simp_all

text \<open>
  C4. When the response of a dispatched call delivers its chunks and ends, the promise
  resolves with a value that depends on the accumulated string only: the parsed value
  when \<open>JSON.parse\<close> succeeds, the string itself when it throws. It is never
  rejected.
\<close>

theorem response_end_resolves:
  "promise_of parse (Dispatched c) (map Data ds @ End # es) =
     Resolved (case parse (concat ds) of Some v \<Rightarrow> Parsed v | None \<Rightarrow> Raw (concat ds))
   \<and> (\<forall>e. promise_of parse (Dispatched c) (map Data ds @ End # es) \<noteq> Rejected e)"
  by (simp add: promise_of_def handle_data resolve_def on_end_def)

section \<open>Ownership of the instance's objects\<close>









end
